theory Spec2Isabelle
  imports Complex_Main "HOL-Library.Sublist"
begin

section \<open>Data model\<close>

text \<open>
  The repository holds two variants of the same screen component:
  \<^verbatim>\<open>src/app/(tabs)/index.tsx\<close> (suffix \<open>_tabs\<close> below) and
  \<^verbatim>\<open>src/unnamed/part_000\<close> (suffix \<open>_part0\<close> below). Functions that are
  textually identical in both files are modelled once, without suffix.

  A finite JavaScript number is modelled by the rational it denotes
  (\<^typ>\<open>rat\<close>). Where the program prints a number or rounds it to an integer
  (\<open>buildPdfHtml\<close>, \<open>mmToPrintPoints\<close>), every arithmetic operation is followed by
  the rounding to the nearest double, see \<open>toDouble\<close> below; \<open>maxMarginMm\<close> and the
  preview aspect ratios are modelled without that rounding. JavaScript strings are
  modelled as \<^typ>\<open>string\<close>; \<open>null\<close> and \<open>undefined\<close> are \<^const>\<open>None\<close>.
\<close>

datatype Orientation = portrait | landscape

datatype PaperSize = A4 | Letter | Legal

record SelectedImage =
  uri :: string
  width :: int
  height :: int
  mimeType :: "string option"

record Dimensions =
  widthMm :: rat
  heightMm :: rat

fun PAPER_SIZES :: "PaperSize \<Rightarrow> Dimensions" where
  "PAPER_SIZES A4 = \<lparr>widthMm = 210, heightMm = 297\<rparr>"
| "PAPER_SIZES Letter = \<lparr>widthMm = 215.9, heightMm = 279.4\<rparr>"
| "PAPER_SIZES Legal = \<lparr>widthMm = 215.9, heightMm = 355.6\<rparr>"

text \<open>An asset as the image picker returns it: every field but the URI may be absent.\<close>

record ImagePickerAsset =
  asset_uri :: string
  asset_width :: "int option"
  asset_height :: "int option"
  asset_mimeType :: "string option"

record ImagePickerResult =
  canceled :: bool
  assets :: "ImagePickerAsset list option"

text \<open>The React state shared by both variants, and each variant's own state.\<close>

record core_state =
  images :: "SelectedImage list"
  paperSize :: PaperSize
  orientation :: Orientation

record tabs_state = core_state +
  marginMm :: rat
  isConverting :: bool
  pdfUri :: "string option"
  isSharing :: bool

record part0_state = core_state +
  paddingMm :: rat
  isGenerating :: bool
  previewCanvasSize :: "rat \<times> rat"

text \<open>
  The alerts of the source, by title: \<open>NoticePermission\<close> is "Permiso requerido",
  \<open>NoticeNoImages\<close> is "Sin imagenes" (the message asks to select at least one
  image; the source writes the title with an accent),
  \<open>NoticePdfCreated\<close> is "PDF creado", \<open>NoticeError\<close> is "Error".
\<close>

datatype notice = NoticePermission | NoticeNoImages | NoticePdfCreated | NoticeError

text \<open>
  What an operation does besides returning, in program order: alerts, updates of the
  in-progress flag (\<open>setIsConverting\<close>, \<open>setIsGenerating\<close>), file reads, the call of
  the print service with the markup it is given, \<open>setPdfUri\<close> and \<open>console.error\<close>.
\<close>

datatype effect =
    Alert notice
  | SetInProgress bool
  | ReadFile string
  | PrintToFile string
  | PrintDialog string Orientation
  | SetPdfUri string
  | ConsoleError

text \<open>
  The external collaborators: reading a file as base64 and the two print calls. Each
  either fails (\<^const>\<open>None\<close>, a rejected promise) or returns.
\<close>

record services =
  readBase64 :: "string \<Rightarrow> string option"
  printToFileAsync :: "string \<Rightarrow> string option"
  printAsync :: "string \<Rightarrow> Orientation \<Rightarrow> unit option"

section \<open>String helpers of the JavaScript runtime\<close>

text \<open>\<open>value.replace(/c/g, r)\<close> for a single character \<open>c\<close>.\<close>

definition replaceAll :: "char \<Rightarrow> string \<Rightarrow> string \<Rightarrow> string" where
  "replaceAll c r s = concat (map (\<lambda>x. if x = c then r else [x]) s)"

text \<open>\<open>s.split(c)\<close> for a single character \<open>c\<close>: never empty, \<open>"".split(c)\<close> is \<open>[""]\<close>.\<close>

fun split :: "char \<Rightarrow> string \<Rightarrow> string list" where
  "split c [] = [[]]"
| "split c (x # xs) =
     (if x = c then [] # split c xs
      else (case split c xs of [] \<Rightarrow> [[x]] | y # ys \<Rightarrow> (x # y) # ys))"

text \<open>\<open>xs[0]\<close> and \<open>xs.pop()\<close>: \<open>undefined\<close> on an empty array.\<close>

definition first :: "'a list \<Rightarrow> 'a option" where
  "first xs = (case xs of [] \<Rightarrow> None | x # _ \<Rightarrow> Some x)"

definition pop :: "'a list \<Rightarrow> 'a option" where
  "pop xs = (if xs = [] then None else Some (last xs))"

text \<open>
  \<open>s.toLowerCase()\<close>, on the ASCII letters: the lower-cased text is only compared
  with \<open>png\<close>, \<open>webp\<close>, \<open>gif\<close>, \<open>heic\<close> and \<open>heif\<close>, and no character outside
  ASCII has one of their letters as its lower-case form.
\<close>

definition toLowerCase_char :: "char \<Rightarrow> char" where
  "toLowerCase_char c =
     (case map_of (zip ''ABCDEFGHIJKLMNOPQRSTUVWXYZ'' ''abcdefghijklmnopqrstuvwxyz'') c of
        None \<Rightarrow> c | Some l \<Rightarrow> l)"

definition toLowerCase :: "string \<Rightarrow> string" where
  "toLowerCase s = map toLowerCase_char s"

text \<open>The decimal digits of a natural number.\<close>

fun show_nat :: "nat \<Rightarrow> string" where
  "show_nat n =
     (if n < 10 then [''0123456789'' ! n]
      else show_nat (n div 10) @ [''0123456789'' ! (n mod 10)])"

section \<open>Numbers of the JavaScript runtime\<close>

text \<open>
  \<open>toDouble x\<close> is the double nearest to \<open>x\<close> (IEEE 754 binary64, round to nearest,
  ties to even): \<open>binade x\<close> is the exponent \<open>e\<close> with \<open>2^e \<le> x < 2^(e+1)\<close>, the
  spacing of the doubles there is \<open>2^(e-52)\<close> (and \<open>2^(-1074)\<close> below \<open>2^(-1022)\<close>).
  Overflow to infinity (from \<open>2^1024\<close> on), NaN and the sign of zero are not modelled.
\<close>

fun bits :: "nat \<Rightarrow> nat" where
  "bits n = (if n = 0 then 0 else Suc (bits (n div 2)))"

definition pow2 :: "int \<Rightarrow> rat" where
  "pow2 k = (if 0 \<le> k then 2 ^ nat k else 1 / 2 ^ nat (- k))"

definition pow10 :: "int \<Rightarrow> rat" where
  "pow10 k = (if 0 \<le> k then 10 ^ nat k else 1 / 10 ^ nat (- k))"

definition binade :: "rat \<Rightarrow> int" where
  "binade x = (if 1 \<le> x then int (bits (nat \<lfloor>x\<rfloor>)) - 1
               else - int (bits (nat (\<lceil>1 / x\<rceil> - 1))))"

definition roundHalfEven :: "rat \<Rightarrow> int" where
  "roundHalfEven q =
     (let f = \<lfloor>q\<rfloor>; d = q - of_int f
      in if d < 1 / 2 then f else if 1 / 2 < d then f + 1 else if even f then f else f + 1)"

definition toDouble :: "rat \<Rightarrow> rat" where
  "toDouble x =
     (if x = 0 then 0
      else (let e = max (binade \<bar>x\<bar>) (- 1022); ulp = pow2 (e - 52)
            in of_int (roundHalfEven (x / ulp)) * ulp))"

text \<open>The operators \<open>-\<close>, \<open>*\<close> and \<open>/\<close> on numbers.\<close>

definition jsSub :: "rat \<Rightarrow> rat \<Rightarrow> rat" where
  "jsSub a b = toDouble (toDouble a - toDouble b)"

definition jsMul :: "rat \<Rightarrow> rat \<Rightarrow> rat" where
  "jsMul a b = toDouble (toDouble a * toDouble b)"

definition jsDiv :: "rat \<Rightarrow> rat \<Rightarrow> rat" where
  "jsDiv a b = toDouble (toDouble a / toDouble b)"

text \<open>
  Number-to-string conversion, as a template literal does it: the decimal with the
  fewest significant digits that rounds to the double (of two such decimals the nearer
  one, of two equally near ones the one with the even last digit), \<open>decade x\<close> being
  the \<open>n\<close> with \<open>10^(n-1) \<le> x < 10^n\<close>. The decimal is printed in full; the exponent
  notation that JavaScript uses from \<open>10^21\<close> on and below \<open>10^(-6)\<close> is not modelled.
\<close>

definition decade :: "rat \<Rightarrow> int" where
  "decade x = (if 1 \<le> x then int (length (show_nat (nat \<lfloor>x\<rfloor>)))
               else 1 - int (length (show_nat (nat (\<lceil>1 / x\<rceil> - 1)))))"

function shortestFrom :: "nat \<Rightarrow> int \<Rightarrow> rat \<Rightarrow> rat" where
  "shortestFrom k n x =
     (if 17 < k then x
      else (let s = pow10 (int k - n);
                m = \<lfloor>x * s\<rfloor>;
                lo = of_int m / s;
                hi = of_int (m + 1) / s
            in if toDouble lo = x \<and> toDouble hi = x
               then (if x - lo < hi - x then lo
                     else if hi - x < x - lo then hi
                     else if even m then lo else hi)
               else if toDouble lo = x then lo
               else if toDouble hi = x then hi
               else shortestFrom (k + 1) n x))"
  by pat_completeness auto
termination
  by (relation "measure (\<lambda>(k, n, x). 18 - k)") auto

definition shortestDecimal :: "rat \<Rightarrow> rat" where
  "shortestDecimal x =
     (if x = 0 then 0
      else if x < 0 then - shortestFrom 1 (decade (- x)) (- x)
      else shortestFrom 1 (decade x) x)"

function frac_digits :: "nat \<Rightarrow> rat \<Rightarrow> string" where
  "frac_digits k r =
     (if r = 0 \<or> 30 \<le> k then []
      else (let d = nat \<lfloor>r * 10\<rfloor>
            in (''0123456789'' ! d) # frac_digits (k + 1) (r * 10 - of_nat d)))"
  by pat_completeness auto
termination
  by (relation "measure (\<lambda>(k, r). 30 - k)") auto

definition showDecimal :: "rat \<Rightarrow> string" where
  "showDecimal x =
     (let a = \<bar>x\<bar>; ip = nat \<lfloor>a\<rfloor>; fp = a - of_nat ip
      in (if x < 0 then ''-'' else []) @ show_nat ip
         @ (if fp = 0 then [] else ''.'' @ frac_digits 0 fp))"

definition numberToString :: "rat \<Rightarrow> string" where
  "numberToString x = showDecimal (shortestDecimal (toDouble x))"

section \<open>Template literals\<close>

text \<open>One line of a template literal: the line break, the indentation, the text.\<close>

definition ln :: "nat \<Rightarrow> string \<Rightarrow> string" where
  "ln k s = CHR 0x0A # replicate k CHR '' '' @ s"

section \<open>Pure functions of the module\<close>

definition escapeAttribute :: "string \<Rightarrow> string" where
  \<open>escapeAttribute v =
     replaceAll CHR ''>'' ''&gt;''
       (replaceAll CHR ''<'' ''&lt;''
         (replaceAll CHR 0x27 ''&#39;''
           (replaceAll CHR 0x22 ''&quot;''
             (replaceAll CHR ''&'' ''&amp;'' v))))\<close>

text \<open>
  \<open>Math.round\<close> gives the integer nearest to the value of a double, a half towards
  plus infinity.
\<close>

definition Math_round :: "rat \<Rightarrow> int" where
  "Math_round x = \<lfloor>x + 1 / 2\<rfloor>"

definition mmToPrintPoints :: "rat \<Rightarrow> int" where
  "mmToPrintPoints mm = Math_round (jsMul (jsDiv mm 25.4) 72)"

definition getPageDimensionsMm :: "PaperSize \<Rightarrow> Orientation \<Rightarrow> Dimensions" where
  "getPageDimensionsMm p orient =
     (let base = PAPER_SIZES p
      in if orient = portrait
         then \<lparr>widthMm = widthMm base, heightMm = heightMm base\<rparr>
         else \<lparr>widthMm = heightMm base, heightMm = widthMm base\<rparr>)"

definition inferImageMimeType :: "SelectedImage \<Rightarrow> string" where
  "inferImageMimeType img =
     (if (case mimeType img of None \<Rightarrow> False | Some m \<Rightarrow> prefix ''image/'' m)
      then the (mimeType img)
      else
        (let extension =
               map_option toLowerCase
                 (Option.bind (first (split CHR ''?'' (uri img)))
                    (\<lambda>path. pop (split CHR ''.'' path)))
         in if extension = Some ''png'' then ''image/png''
            else if extension = Some ''webp'' then ''image/webp''
            else if extension = Some ''gif'' then ''image/gif''
            else if extension = Some ''heic'' \<or> extension = Some ''heif'' then ''image/heic''
            else ''image/jpeg''))"

section \<open>Derived values of the component\<close>

text \<open>
  \<open>maxMarginMm\<close> of index.tsx and \<open>maxPaddingMm\<close> of part_000 are the same expression
  of the page dimensions.
\<close>

definition maxMarginMm :: "rat \<Rightarrow> rat \<Rightarrow> int" where
  "maxMarginMm w h = \<lfloor>max 0 (min w h / 2 - 1)\<rfloor>"

definition previewAspectRatio_tabs :: "rat \<Rightarrow> rat \<Rightarrow> rat \<Rightarrow> rat" where
  "previewAspectRatio_tabs w h m =
     (let contentWidth = max (w - m * 2) 1;
          contentHeight = max (h - m * 2) 1
      in contentWidth / contentHeight)"

definition previewAspectRatio_part0 :: "rat \<Rightarrow> rat \<Rightarrow> rat" where
  "previewAspectRatio_part0 w h = w / h"

section \<open>Picking images\<close>

text \<open>
  The updater that \<open>pickImages\<close> hands to \<open>setImages\<close>: the assets whose URI is not
  among the previous images, converted, after the previous images.
\<close>

definition toSelectedImage :: "ImagePickerAsset \<Rightarrow> SelectedImage" where
  "toSelectedImage asset =
     \<lparr>uri = asset_uri asset,
      width = (case asset_width asset of None \<Rightarrow> 0 | Some w \<Rightarrow> w),
      height = (case asset_height asset of None \<Rightarrow> 0 | Some h \<Rightarrow> h),
      mimeType = asset_mimeType asset\<rparr>"

definition mergeNewImages :: "SelectedImage list \<Rightarrow> ImagePickerAsset list \<Rightarrow> SelectedImage list" where
  "mergeNewImages previous picked =
     (let existingUris = set (map uri previous);
          additions = map toSelectedImage
                        (filter (\<lambda>asset. asset_uri asset \<notin> existingUris) picked)
      in previous @ additions)"

definition pickImages ::
  "bool \<Rightarrow> ImagePickerResult \<Rightarrow> 'a core_state_scheme \<Rightarrow> 'a core_state_scheme \<times> effect list" where
  "pickImages granted result st =
     (if \<not> granted then (st, [Alert NoticePermission])
      else if canceled result \<or> (case assets result of None \<Rightarrow> True | Some as \<Rightarrow> length as = 0)
      then (st, [])
      else (st\<lparr>images := mergeNewImages (images st) (the (assets result))\<rparr>, []))"

section \<open>The markup generator\<close>

text \<open>What a template literal prints for an orientation, and the join of the pages.\<close>

fun orientation_string :: "Orientation \<Rightarrow> string" where
  "orientation_string portrait = ''portrait''"
| "orientation_string landscape = ''landscape''"

definition map_indexed :: "('a \<Rightarrow> nat \<Rightarrow> 'b) \<Rightarrow> 'a list \<Rightarrow> 'b list" where
  "map_indexed f xs = map (\<lambda>(x, i). f x i) (zip xs [0..<length xs])"

subsection \<open>index.tsx\<close>

definition sheet_tabs :: "string \<Rightarrow> nat \<Rightarrow> string" where
  \<open>sheet_tabs source index =
     ln 10 ''<section class="sheet">''
     @ ln 12 (''<img src="'' @ escapeAttribute source @ ''" alt="Imagen ''
              @ show_nat (index + 1) @ ''" />'')
     @ ln 10 ''</section>''
     @ ln 8 []\<close>

text \<open>
  The style sheet of the document template, one definition per CSS rule. The rules for
  \<open>@page\<close>, \<open>html, body\<close> and \<open>.sheet:last-child\<close> are the same text in both files.
\<close>

definition pageRule :: "rat \<Rightarrow> rat \<Rightarrow> string" where
  \<open>pageRule w h =
     ln 12 ''@page {''
     @ ln 14 (''size: '' @ numberToString w @ ''mm '' @ numberToString h @ ''mm;'')
     @ ln 14 ''margin: 0;''
     @ ln 12 ''}''\<close>

definition htmlBodyRule :: string where
  \<open>htmlBodyRule =
     ln 12 ''html, body {''
     @ ln 14 ''margin: 0;''
     @ ln 14 ''padding: 0;''
     @ ln 14 ''background: #ffffff;''
     @ ln 12 ''}''\<close>

definition sheetRule_tabs :: "rat \<Rightarrow> rat \<Rightarrow> rat \<Rightarrow> string" where
  \<open>sheetRule_tabs w h m =
     ln 12 ''.sheet {''
     @ ln 14 ''box-sizing: border-box;''
     @ ln 14 (''width: '' @ numberToString w @ ''mm;'')
     @ ln 14 (''height: '' @ numberToString h @ ''mm;'')
     @ ln 14 (''padding: '' @ numberToString m @ ''mm;'')
     @ ln 14 ''display: flex;''
     @ ln 14 ''align-items: center;''
     @ ln 14 ''justify-content: center;''
     @ ln 14 ''page-break-after: always;''
     @ ln 14 ''break-after: page;''
     @ ln 12 ''}''\<close>

definition lastChildRule :: string where
  \<open>lastChildRule =
     ln 12 ''.sheet:last-child {''
     @ ln 14 ''page-break-after: auto;''
     @ ln 14 ''break-after: auto;''
     @ ln 12 ''}''\<close>

definition imgRule_tabs :: string where
  \<open>imgRule_tabs =
     ln 12 ''.sheet img {''
     @ ln 14 ''width: 100%;''
     @ ln 14 ''height: 100%;''
     @ ln 14 ''object-fit: contain;''
     @ ln 14 ''display: block;''
     @ ln 12 ''}''\<close>

definition styleSheet_tabs :: "rat \<Rightarrow> rat \<Rightarrow> rat \<Rightarrow> string" where
  "styleSheet_tabs w h m =
     pageRule w h
     @ ln 0 []
     @ htmlBodyRule
     @ ln 0 []
     @ sheetRule_tabs w h m
     @ ln 0 []
     @ lastChildRule
     @ ln 0 []
     @ imgRule_tabs"

definition documentHead :: string where
  \<open>documentHead =
     ln 6 ''<!doctype html>''
     @ ln 6 ''<html lang="es">''
     @ ln 8 ''<head>''
     @ ln 10 ''<meta charset="utf-8" />''
     @ ln 10 ''<meta name="viewport" content="width=device-width, initial-scale=1" />''
     @ ln 10 ''<style>''\<close>

definition documentBody :: "string \<Rightarrow> string" where
  \<open>documentBody pages =
     ln 10 ''</style>''
     @ ln 8 ''</head>''
     @ ln 8 ''<body>''
     @ ln 10 pages
     @ ln 8 ''</body>''
     @ ln 6 ''</html>''
     @ ln 4 []\<close>

text \<open>
  \<open>buildPdfHtml\<close> is a closure over \<open>widthMm\<close>, \<open>heightMm\<close> (the page dimensions
  derived from the paper size and the orientation) and \<open>marginMm\<close>.
\<close>

definition buildPdfHtml_tabs :: "tabs_state \<Rightarrow> string list \<Rightarrow> string" where
  "buildPdfHtml_tabs st imageSources =
     (let dims = getPageDimensionsMm (paperSize st) (orientation st);
          pages = concat (map_indexed sheet_tabs imageSources)
      in documentHead @ styleSheet_tabs (widthMm dims) (heightMm dims) (marginMm st)
         @ documentBody pages)"

subsection \<open>part_000\<close>

definition sheet_part0 :: "Orientation \<Rightarrow> string \<Rightarrow> nat \<Rightarrow> string" where
  \<open>sheet_part0 orient source index =
     ln 10 (''<section class="sheet '' @ orientation_string orient @ ''">'')
     @ ln 12 ''<div class="content">''
     @ ln 14 (''<img src="'' @ escapeAttribute source @ ''" alt="Imagen ''
              @ show_nat (index + 1) @ ''" />'')
     @ ln 12 ''</div>''
     @ ln 10 ''</section>''
     @ ln 8 []\<close>

definition sheetRule_part0 :: "rat \<Rightarrow> rat \<Rightarrow> string" where
  \<open>sheetRule_part0 w h =
     ln 12 ''.sheet {''
     @ ln 14 (''width: '' @ numberToString w @ ''mm;'')
     @ ln 14 (''height: '' @ numberToString h @ ''mm;'')
     @ ln 14 ''display: flex;''
     @ ln 14 ''align-items: center;''
     @ ln 14 ''justify-content: center;''
     @ ln 14 ''page-break-after: always;''
     @ ln 14 ''break-after: page;''
     @ ln 14 ''overflow: hidden;''
     @ ln 12 ''}''\<close>

definition contentRule :: "rat \<Rightarrow> rat \<Rightarrow> string" where
  \<open>contentRule contentWidthMm contentHeightMm =
     ln 12 ''.content {''
     @ ln 14 (''width: '' @ numberToString contentWidthMm @ ''mm;'')
     @ ln 14 (''height: '' @ numberToString contentHeightMm @ ''mm;'')
     @ ln 14 ''display: flex;''
     @ ln 14 ''align-items: center;''
     @ ln 14 ''justify-content: center;''
     @ ln 12 ''}''\<close>

definition contentImgRule :: string where
  \<open>contentImgRule =
     ln 12 ''.content img {''
     @ ln 14 ''max-width: 100%;''
     @ ln 14 ''max-height: 100%;''
     @ ln 14 ''width: auto;''
     @ ln 14 ''height: auto;''
     @ ln 14 ''display: block;''
     @ ln 12 ''}''\<close>

definition landscapeImgRule :: "rat \<Rightarrow> rat \<Rightarrow> string" where
  \<open>landscapeImgRule contentWidthMm contentHeightMm =
     ln 12 ''.sheet.landscape .content img {''
     @ ln 14 (''max-width: '' @ numberToString contentHeightMm @ ''mm;'')
     @ ln 14 (''max-height: '' @ numberToString contentWidthMm @ ''mm;'')
     @ ln 14 ''transform: rotate(90deg);''
     @ ln 14 ''transform-origin: center center;''
     @ ln 12 ''}''\<close>

definition styleSheet_part0 :: "rat \<Rightarrow> rat \<Rightarrow> rat \<Rightarrow> rat \<Rightarrow> string" where
  "styleSheet_part0 w h contentWidthMm contentHeightMm =
     pageRule w h
     @ ln 0 []
     @ htmlBodyRule
     @ ln 0 []
     @ sheetRule_part0 w h
     @ ln 0 []
     @ lastChildRule
     @ ln 0 []
     @ contentRule contentWidthMm contentHeightMm
     @ ln 0 []
     @ contentImgRule
     @ ln 0 []
     @ landscapeImgRule contentWidthMm contentHeightMm"

text \<open>
  Here \<open>buildPdfHtml\<close> is a closure over \<open>widthMm\<close>, \<open>heightMm\<close>, \<open>paddingMm\<close>
  and \<open>orientation\<close>, and computes the content box itself.
\<close>

definition buildPdfHtml_part0 :: "part0_state \<Rightarrow> string list \<Rightarrow> string" where
  "buildPdfHtml_part0 st imageSources =
     (let dims = getPageDimensionsMm (paperSize st) (orientation st);
          contentWidthMm = max (jsSub (widthMm dims) (jsMul (paddingMm st) 2)) 1;
          contentHeightMm = max (jsSub (heightMm dims) (jsMul (paddingMm st) 2)) 1;
          pages = concat (map_indexed (sheet_part0 (orientation st)) imageSources)
      in documentHead
         @ styleSheet_part0 (widthMm dims) (heightMm dims) contentWidthMm contentHeightMm
         @ documentBody pages)"

section \<open>Generating the document\<close>

text \<open>
  \<open>Promise.all\<close> over the images: every read is started; the result is the list of
  data URIs in the order of the images, or a rejection when a read fails.
\<close>

definition imageSource :: "services \<Rightarrow> SelectedImage \<Rightarrow> string option" where
  "imageSource sv img =
     (case readBase64 sv (uri img) of
        None \<Rightarrow> None
      | Some base64 \<Rightarrow> Some (''data:'' @ inferImageMimeType img @ '';base64,'' @ base64))"

definition Promise_all :: "'a option list \<Rightarrow> 'a list option" where
  "Promise_all ps = (if list_all (\<lambda>p. p \<noteq> None) ps then Some (map the ps) else None)"

definition convertToPdf :: "services \<Rightarrow> tabs_state \<Rightarrow> tabs_state \<times> effect list" where
  "convertToPdf sv st =
     (if length (images st) = 0 then (st, [Alert NoticeNoImages])
      else
        (let started = SetInProgress True # map (\<lambda>img. ReadFile (uri img)) (images st)
         in case Promise_all (map (imageSource sv) (images st)) of
              None \<Rightarrow>
                (st\<lparr>isConverting := False\<rparr>,
                 started @ [Alert NoticeError, ConsoleError, SetInProgress False])
            | Some imageSources \<Rightarrow>
                (let html = buildPdfHtml_tabs st imageSources
                 in case printToFileAsync sv html of
                      None \<Rightarrow>
                        (st\<lparr>isConverting := False\<rparr>,
                         started @ [PrintToFile html, Alert NoticeError, ConsoleError,
                                    SetInProgress False])
                    | Some file \<Rightarrow>
                        (st\<lparr>pdfUri := Some file, isConverting := False\<rparr>,
                         started @ [PrintToFile html, SetPdfUri file, Alert NoticePdfCreated,
                                    SetInProgress False]))))"

definition generatePdf :: "services \<Rightarrow> part0_state \<Rightarrow> part0_state \<times> effect list" where
  "generatePdf sv st =
     (if length (images st) = 0 then (st, [Alert NoticeNoImages])
      else
        (let started = SetInProgress True # map (\<lambda>img. ReadFile (uri img)) (images st)
         in case Promise_all (map (imageSource sv) (images st)) of
              None \<Rightarrow>
                (st\<lparr>isGenerating := False\<rparr>,
                 started @ [Alert NoticeError, ConsoleError, SetInProgress False])
            | Some imageSources \<Rightarrow>
                (let html = buildPdfHtml_part0 st imageSources
                 in case printAsync sv html (orientation st) of
                      None \<Rightarrow>
                        (st\<lparr>isGenerating := False\<rparr>,
                         started @ [PrintDialog html (orientation st), Alert NoticeError,
                                    ConsoleError, SetInProgress False])
                    | Some _ \<Rightarrow>
                        (st\<lparr>isGenerating := False\<rparr>,
                         started @ [PrintDialog html (orientation st),
                                    SetInProgress False]))))"

section \<open>Notions used in the statements\<close>


text \<open>
  The extension of a handle: the text after the last dot of the part of the handle
  before the first question mark (all of that part when it has no dot), in lower case.
\<close>

definition extensionOf :: "string \<Rightarrow> string" where
  "extensionOf handle =
     toLowerCase (rev (takeWhile (\<lambda>c. c \<noteq> CHR ''.'')
                         (rev (takeWhile (\<lambda>c. c \<noteq> CHR ''?'') handle))))"

text \<open>The table from extensions to MIME types, with its default.\<close>

definition mimeOfExtension :: "string \<Rightarrow> string" where
  "mimeOfExtension ext =
     (if ext = ''png'' then ''image/png''
      else if ext = ''webp'' then ''image/webp''
      else if ext = ''gif'' then ''image/gif''
      else if ext = ''heic'' \<or> ext = ''heif'' then ''image/heic''
      else ''image/jpeg'')"

text \<open>
  Reading the style sheet of a generated document. \<open>textAfter m s\<close> is the text that
  follows the first occurrence of \<open>m\<close> in \<open>s\<close>. \<open>cssRule\<close> gives the declarations of
  the first rule with the given selector (the rule's own line, as the templates write
  it, up to the closing brace), \<open>cssValue\<close> the value of a property declared there.
\<close>

fun textAfter :: "string \<Rightarrow> string \<Rightarrow> string option" where
  "textAfter m [] = (if m = [] then Some [] else None)"
| "textAfter m (c # cs) =
     (if prefix m (c # cs) then Some (drop (length m) (c # cs)) else textAfter m cs)"

definition cssRule :: "string \<Rightarrow> string \<Rightarrow> string option" where
  "cssRule selector html =
     map_option (takeWhile (\<lambda>c. c \<noteq> CHR ''}'')) (textAfter (ln 12 (selector @ '' {'')) html)"

definition cssValue :: "string \<Rightarrow> string \<Rightarrow> string \<Rightarrow> string option" where
  "cssValue selector property html =
     Option.bind (cssRule selector html)
       (\<lambda>body. map_option (takeWhile (\<lambda>c. c \<noteq> CHR '';''))
                 (textAfter (ln 14 (property @ '': '')) body))"

text \<open>A length in millimetres, written as a decimal followed by \<open>mm\<close>.\<close>

definition digitValue :: "char \<Rightarrow> nat option" where
  "digitValue c =
     map_of [(CHR ''0'', 0), (CHR ''1'', 1), (CHR ''2'', 2), (CHR ''3'', 3), (CHR ''4'', 4),
             (CHR ''5'', 5), (CHR ''6'', 6), (CHR ''7'', 7), (CHR ''8'', 8), (CHR ''9'', 9)] c"

definition natOfDigits :: "string \<Rightarrow> nat" where
  "natOfDigits ds = foldl (\<lambda>a c. 10 * a + the (digitValue c)) 0 ds"

definition millimetres :: "string \<Rightarrow> rat option" where
  "millimetres s =
     (let ip = takeWhile (\<lambda>c. digitValue c \<noteq> None) s;
          rest = dropWhile (\<lambda>c. digitValue c \<noteq> None) s
      in if ip = [] then None
         else if rest = ''mm'' then Some (of_nat (natOfDigits ip))
         else (case rest of
                 [] \<Rightarrow> None
               | c # fs \<Rightarrow>
                   (let fp = takeWhile (\<lambda>c. digitValue c \<noteq> None) fs;
                        unit = dropWhile (\<lambda>c. digitValue c \<noteq> None) fs
                    in if c = CHR ''.'' \<and> fp \<noteq> [] \<and> unit = ''mm''
                       then Some (of_nat (natOfDigits ip)
                                  + of_nat (natOfDigits fp) / 10 ^ length fp)
                       else None)))"

text \<open>
  The width and height that a rule declares, and the content box that is left inside a
  rule with \<open>box-sizing: border-box\<close>: its width and height less the padding on both
  sides.
\<close>

definition declaredSizeMm :: "string \<Rightarrow> string \<Rightarrow> (rat \<times> rat) option" where
  "declaredSizeMm selector html =
     (case (Option.bind (cssValue selector ''width'' html) millimetres,
            Option.bind (cssValue selector ''height'' html) millimetres) of
        (Some w, Some h) \<Rightarrow> Some (w, h)
      | _ \<Rightarrow> None)"

definition borderBoxContentMm :: "string \<Rightarrow> string \<Rightarrow> (rat \<times> rat) option" where
  "borderBoxContentMm selector html =
     (if cssValue selector ''box-sizing'' html = Some ''border-box''
      then (case (declaredSizeMm selector html,
                  Option.bind (cssValue selector ''padding'' html) millimetres) of
              (Some (w, h), Some p) \<Rightarrow> Some (w - 2 * p, h - 2 * p)
            | _ \<Rightarrow> None)
      else None)"

text \<open>
  The documents expected for paper A4, orientation portrait, a margin of 10 mm and one
  image source, for part_000 and for index.tsx: page and sheet 210mm by 297mm, and in
  part_000 a content element of 190mm by 277mm.
\<close>

definition documentA4_part0 :: "string \<Rightarrow> string" where
  \<open>documentA4_part0 source =
     ln 6 ''<!doctype html>''
     @ ln 6 ''<html lang="es">''
     @ ln 8 ''<head>''
     @ ln 10 ''<meta charset="utf-8" />''
     @ ln 10 ''<meta name="viewport" content="width=device-width, initial-scale=1" />''
     @ ln 10 ''<style>''
     @ ln 12 ''@page {''
     @ ln 14 ''size: 210mm 297mm;''
     @ ln 14 ''margin: 0;''
     @ ln 12 ''}''
     @ ln 0 []
     @ ln 12 ''html, body {''
     @ ln 14 ''margin: 0;''
     @ ln 14 ''padding: 0;''
     @ ln 14 ''background: #ffffff;''
     @ ln 12 ''}''
     @ ln 0 []
     @ ln 12 ''.sheet {''
     @ ln 14 ''width: 210mm;''
     @ ln 14 ''height: 297mm;''
     @ ln 14 ''display: flex;''
     @ ln 14 ''align-items: center;''
     @ ln 14 ''justify-content: center;''
     @ ln 14 ''page-break-after: always;''
     @ ln 14 ''break-after: page;''
     @ ln 14 ''overflow: hidden;''
     @ ln 12 ''}''
     @ ln 0 []
     @ ln 12 ''.sheet:last-child {''
     @ ln 14 ''page-break-after: auto;''
     @ ln 14 ''break-after: auto;''
     @ ln 12 ''}''
     @ ln 0 []
     @ ln 12 ''.content {''
     @ ln 14 ''width: 190mm;''
     @ ln 14 ''height: 277mm;''
     @ ln 14 ''display: flex;''
     @ ln 14 ''align-items: center;''
     @ ln 14 ''justify-content: center;''
     @ ln 12 ''}''
     @ ln 0 []
     @ ln 12 ''.content img {''
     @ ln 14 ''max-width: 100%;''
     @ ln 14 ''max-height: 100%;''
     @ ln 14 ''width: auto;''
     @ ln 14 ''height: auto;''
     @ ln 14 ''display: block;''
     @ ln 12 ''}''
     @ ln 0 []
     @ ln 12 ''.sheet.landscape .content img {''
     @ ln 14 ''max-width: 277mm;''
     @ ln 14 ''max-height: 190mm;''
     @ ln 14 ''transform: rotate(90deg);''
     @ ln 14 ''transform-origin: center center;''
     @ ln 12 ''}''
     @ ln 10 ''</style>''
     @ ln 8 ''</head>''
     @ ln 8 ''<body>''
     @ ln 10 (ln 10 ''<section class="sheet portrait">''
              @ ln 12 ''<div class="content">''
              @ ln 14 (''<img src="'' @ escapeAttribute source @ ''" alt="Imagen 1" />'')
              @ ln 12 ''</div>''
              @ ln 10 ''</section>''
              @ ln 8 [])
     @ ln 8 ''</body>''
     @ ln 6 ''</html>''
     @ ln 4 []\<close>

definition documentA4_tabs :: "string \<Rightarrow> string" where
  \<open>documentA4_tabs source =
     ln 6 ''<!doctype html>''
     @ ln 6 ''<html lang="es">''
     @ ln 8 ''<head>''
     @ ln 10 ''<meta charset="utf-8" />''
     @ ln 10 ''<meta name="viewport" content="width=device-width, initial-scale=1" />''
     @ ln 10 ''<style>''
     @ ln 12 ''@page {''
     @ ln 14 ''size: 210mm 297mm;''
     @ ln 14 ''margin: 0;''
     @ ln 12 ''}''
     @ ln 0 []
     @ ln 12 ''html, body {''
     @ ln 14 ''margin: 0;''
     @ ln 14 ''padding: 0;''
     @ ln 14 ''background: #ffffff;''
     @ ln 12 ''}''
     @ ln 0 []
     @ ln 12 ''.sheet {''
     @ ln 14 ''box-sizing: border-box;''
     @ ln 14 ''width: 210mm;''
     @ ln 14 ''height: 297mm;''
     @ ln 14 ''padding: 10mm;''
     @ ln 14 ''display: flex;''
     @ ln 14 ''align-items: center;''
     @ ln 14 ''justify-content: center;''
     @ ln 14 ''page-break-after: always;''
     @ ln 14 ''break-after: page;''
     @ ln 12 ''}''
     @ ln 0 []
     @ ln 12 ''.sheet:last-child {''
     @ ln 14 ''page-break-after: auto;''
     @ ln 14 ''break-after: auto;''
     @ ln 12 ''}''
     @ ln 0 []
     @ ln 12 ''.sheet img {''
     @ ln 14 ''width: 100%;''
     @ ln 14 ''height: 100%;''
     @ ln 14 ''object-fit: contain;''
     @ ln 14 ''display: block;''
     @ ln 12 ''}''
     @ ln 10 ''</style>''
     @ ln 8 ''</head>''
     @ ln 8 ''<body>''
     @ ln 10 (ln 10 ''<section class="sheet">''
              @ ln 12 (''<img src="'' @ escapeAttribute source @ ''" alt="Imagen 1" />'')
              @ ln 10 ''</section>''
              @ ln 8 [])
     @ ln 8 ''</body>''
     @ ln 6 ''</html>''
     @ ln 4 []\<close>

section \<open>Page geometry\<close>

text \<open>
  C2: for every paper size, the portrait dimensions are the paper's reference
  dimensions unchanged, the landscape dimensions are the same pair with width and height
  exchanged, and exchanging the landscape pair once more gives the portrait pair.
\<close>

theorem getPageDimensionsMm_swap:
  "getPageDimensionsMm p portrait = PAPER_SIZES p
   \<and> widthMm (getPageDimensionsMm p landscape) = heightMm (PAPER_SIZES p)
   \<and> heightMm (getPageDimensionsMm p landscape) = widthMm (PAPER_SIZES p)
   \<and> \<lparr>widthMm = heightMm (getPageDimensionsMm p landscape),
      heightMm = widthMm (getPageDimensionsMm p landscape)\<rparr> = getPageDimensionsMm p portrait"
  by (simp add: getPageDimensionsMm_def Let_def)

lemma floor_max_0: "\<lfloor>max 0 (x::rat)\<rfloor> = max 0 \<lfloor>x\<rfloor>"
proof (cases "0 \<le> x")
  case True
  then have "0 \<le> \<lfloor>x\<rfloor>" by simp
  with True show ?thesis by (simp add: max_def)
next
  case False
  then have "\<lfloor>x\<rfloor> < 0" by (simp add: floor_less_iff)
  with False show ?thesis by (simp add: max_def)
qed

lemma maxMarginMm_spec: "maxMarginMm w h = max 0 \<lfloor>min w h / 2 - 1\<rfloor>"
  unfolding maxMarginMm_def by (rule floor_max_0)

lemma maxMarginMm_mono: "w' \<le> w \<Longrightarrow> h' \<le> h \<Longrightarrow> maxMarginMm w' h' \<le> maxMarginMm w h"
  unfolding maxMarginMm_def by (rule floor_mono) (auto simp: min_def max_def)

lemma maxMarginMm_A4: "maxMarginMm 210 297 = 104"
  unfolding maxMarginMm_def by (simp add: floor_eq_iff)

text \<open>
  C5: for positive page dimensions the largest margin is
  \<open>floor (min w h / 2 - 1)\<close>, or 0 when that is negative; a page that is no wider and
  no taller has a largest margin that is no greater; for A4 portrait it is 104.
\<close>

theorem maxMarginMm_formula_mono:
  assumes "0 < w" "0 < h" "0 < w'" "0 < h'" "w' \<le> w" "h' \<le> h"
  shows "maxMarginMm w h = max 0 \<lfloor>min w h / 2 - 1\<rfloor>
         \<and> maxMarginMm w' h' \<le> maxMarginMm w h
         \<and> maxMarginMm (widthMm (getPageDimensionsMm A4 portrait))
                        (heightMm (getPageDimensionsMm A4 portrait)) = 104"
  using assms maxMarginMm_spec [of w h] maxMarginMm_mono [of w' w h' h] maxMarginMm_A4
  by (simp add: getPageDimensionsMm_def Let_def)

theorem maxMarginMm_formula_mono_witness:
  "maxMarginMm 215.9 279.4 = max 0 \<lfloor>min (215.9::rat) 279.4 / 2 - 1\<rfloor>
   \<and> maxMarginMm 210 279.4 \<le> maxMarginMm 215.9 279.4
   \<and> maxMarginMm (widthMm (getPageDimensionsMm A4 portrait))
                  (heightMm (getPageDimensionsMm A4 portrait)) = 104"
  by (rule maxMarginMm_formula_mono) simp_all

lemma pageDimensions_ge_1:
  "1 \<le> widthMm (getPageDimensionsMm p orient) \<and> 1 \<le> heightMm (getPageDimensionsMm p orient)"
  by (cases p; cases orient) (simp_all add: getPageDimensionsMm_def Let_def)

text \<open>
  C8, as amended: for every paper size and orientation, the preview aspect ratio of
  part_000 is the page width divided by the page height, and the margin is not among
  its arguments. The preview aspect ratio of index.tsx is the ratio of the content box,
  \<open>max (w - 2 m) 1 / max (h - 2 m) 1\<close>, which depends on the margin \<open>m\<close> and is the
  page ratio at margin 0.
\<close>

theorem previewAspectRatio_variants:
  "previewAspectRatio_part0 (widthMm (getPageDimensionsMm p orient))
      (heightMm (getPageDimensionsMm p orient))
   = widthMm (getPageDimensionsMm p orient) / heightMm (getPageDimensionsMm p orient)
   \<and> previewAspectRatio_tabs (widthMm (getPageDimensionsMm p orient))
      (heightMm (getPageDimensionsMm p orient)) m
   = max (widthMm (getPageDimensionsMm p orient) - 2 * m) 1
     / max (heightMm (getPageDimensionsMm p orient) - 2 * m) 1
   \<and> previewAspectRatio_tabs (widthMm (getPageDimensionsMm p orient))
      (heightMm (getPageDimensionsMm p orient)) 0
   = widthMm (getPageDimensionsMm p orient) / heightMm (getPageDimensionsMm p orient)"
  using pageDimensions_ge_1 [of p orient]
  by (simp add: previewAspectRatio_part0_def previewAspectRatio_tabs_def
        Let_def max_absorb1 mult.commute)

text \<open>
  In index.tsx, at A4 portrait with the initial margin of 10 mm, the preview aspect
  ratio is 190 / 277 and not 210 / 297.
\<close>

theorem previewAspectRatio_tabs_counterexample:
  "previewAspectRatio_tabs (widthMm (getPageDimensionsMm A4 portrait))
      (heightMm (getPageDimensionsMm A4 portrait)) 10
   \<noteq> widthMm (getPageDimensionsMm A4 portrait) / heightMm (getPageDimensionsMm A4 portrait)"
  by (simp add: previewAspectRatio_tabs_def getPageDimensionsMm_def)

section \<open>Escaping attribute values\<close>














section \<open>Inferring the MIME type\<close>

lemma split_not_Nil: "split c s \<noteq> []"
  by (induction s) (auto split: list.splits)

lemma split_without: "c \<notin> set s \<Longrightarrow> split c s = [s]"
  by (induction s) auto

lemma split_with: "c \<in> set s \<Longrightarrow> \<exists>y z zs. split c s = y # z # zs"
proof (induction s)
  case Nil
  then show ?case by simp
next
  case (Cons x xs)
  show ?case
  proof (cases "x = c")
    case True
    then show ?thesis using split_not_Nil [of c xs] by (cases "split c xs") auto
  next
    case False
    with Cons show ?thesis by auto
  qed
qed

lemma first_split: "first (split c s) = Some (takeWhile (\<lambda>x. x \<noteq> c) s)"
  by (induction s) (auto simp: first_def split: list.splits)

lemma last_split: "last (split c s) = rev (takeWhile (\<lambda>x. x \<noteq> c) (rev s))"
proof (induction s)
  case Nil
  then show ?case by simp
next
  case (Cons x xs)
  show ?case
  proof (cases "c \<in> set xs")
    case True
    then obtain y z zs where s: "split c xs = y # z # zs" using split_with by blast
    have t: "takeWhile (\<lambda>a. a \<noteq> c) (rev xs @ [x]) = takeWhile (\<lambda>a. a \<noteq> c) (rev xs)"
      using True by (intro takeWhile_append1[of c]) auto
    show ?thesis using Cons s t by auto
  next
    case False
    then have s: "split c xs = [xs]" by (rule split_without)
    have tw: "takeWhile (\<lambda>a. a \<noteq> c) (rev xs @ ys) = rev xs @ takeWhile (\<lambda>a. a \<noteq> c) ys"
      for ys
      by (rule takeWhile_append2) (use False in auto)
    show ?thesis
    proof (cases "x = c")
      case True
      then show ?thesis using s by (simp add: tw)
    next
      case neq: False
      then show ?thesis using s by (simp add: tw)
    qed
  qed
qed

lemma pop_split: "pop (split c s) = Some (rev (takeWhile (\<lambda>x. x \<noteq> c) (rev s)))"
  by (simp add: pop_def split_not_Nil last_split)

lemma extension_eq:
  "map_option toLowerCase
     (Option.bind (first (split CHR ''?'' handle)) (\<lambda>path. pop (split CHR ''.'' path)))
   = Some (extensionOf handle)"
  by (simp add: first_split pop_split extensionOf_def)

lemma inferImageMimeType_cases:
  "inferImageMimeType img =
     (case mimeType img of
        None \<Rightarrow> mimeOfExtension (extensionOf (uri img))
      | Some m \<Rightarrow> if prefix ''image/'' m then m else mimeOfExtension (extensionOf (uri img)))"
  by (simp add: inferImageMimeType_def extension_eq mimeOfExtension_def Let_def
        split: option.splits)

lemma extensionOf_examples:
  "extensionOf ''photo.PNG'' = ''png''" "extensionOf ''img?x=1.webp'' = ''img''"
  by (simp_all add: extensionOf_def toLowerCase_def toLowerCase_char_def)

text \<open>
  C3, as amended: a declared type that starts with \<open>image/\<close> is returned unchanged
  (so \<open>image/heic\<close> gives \<open>image/heic\<close>). Otherwise the type is the one the table
  gives for the extension of the handle, where the extension is the lower-cased text
  after the last dot of the part before the first question mark: \<open>photo.PNG\<close> gives
  \<open>image/png\<close>; \<open>img?x=1.webp\<close> has the extension \<open>img\<close>, which the table does not
  know, and gives \<open>image/jpeg\<close>.
\<close>

theorem inferImageMimeType_classifies:
  "inferImageMimeType img =
     (case mimeType img of
        None \<Rightarrow> mimeOfExtension (extensionOf (uri img))
      | Some m \<Rightarrow> if prefix ''image/'' m then m else mimeOfExtension (extensionOf (uri img)))
   \<and> inferImageMimeType \<lparr>uri = u, width = w, height = h, mimeType = Some ''image/heic''\<rparr>
       = ''image/heic''
   \<and> inferImageMimeType \<lparr>uri = ''photo.PNG'', width = w, height = h, mimeType = None\<rparr>
       = ''image/png''
   \<and> extensionOf ''img?x=1.webp'' = ''img''
   \<and> inferImageMimeType \<lparr>uri = ''img?x=1.webp'', width = w, height = h, mimeType = None\<rparr>
       = ''image/jpeg''"
  by (simp add: inferImageMimeType_cases extensionOf_examples mimeOfExtension_def)

text \<open>The handle \<open>img?x=1.webp\<close> with no declared type is not classified as WebP.\<close>

theorem inferImageMimeType_query_counterexample:
  "inferImageMimeType \<lparr>uri = ''img?x=1.webp'', width = 0, height = 0, mimeType = None\<rparr>
   \<noteq> ''image/webp''"
  by (simp add: inferImageMimeType_def first_def pop_def toLowerCase_def toLowerCase_char_def)

section \<open>Merging picked images\<close>

lemma mergeNewImages_eq:
  "mergeNewImages previous picked =
     previous @ map toSelectedImage (filter (\<lambda>a. asset_uri a \<notin> uri ` set previous) picked)"
  by (simp add: mergeNewImages_def Let_def)

lemma uri_toSelectedImage: "uri (toSelectedImage a) = asset_uri a"
  by (simp add: toSelectedImage_def)

lemma mergeNewImages_uris:
  "map uri (mergeNewImages previous picked)
   = map uri previous @ filter (\<lambda>u. u \<notin> set (map uri previous)) (map asset_uri picked)"
  by (simp add: mergeNewImages_eq uri_toSelectedImage filter_map o_def)

text \<open>
  C4, as amended: when the handles of the existing sequence are pairwise distinct and
  the handles of the picked assets are pairwise distinct, the merged sequence has no
  duplicate handle. For every existing sequence and every picked list, with or without
  repeated handles, the existing images come first, unchanged and in their order; the
  images appended after them are the picked assets whose handle is not among the
  existing ones, converted, in the order of the picked list; and no appended handle is
  an existing handle.
\<close>

theorem mergeNewImages_appends_distinct:
  "(distinct (map uri existing) \<and> distinct (map asset_uri picked)
      \<longrightarrow> distinct (map uri (mergeNewImages existing picked)))
   \<and> take (length existing) (mergeNewImages existing picked) = existing
   \<and> drop (length existing) (mergeNewImages existing picked)
       = map toSelectedImage (filter (\<lambda>a. asset_uri a \<notin> set (map uri existing)) picked)
   \<and> map uri (drop (length existing) (mergeNewImages existing picked))
       = filter (\<lambda>u. u \<notin> set (map uri existing)) (map asset_uri picked)
   \<and> subseq (map uri (drop (length existing) (mergeNewImages existing picked)))
             (map asset_uri picked)
   \<and> set (map uri existing)
         \<inter> set (map uri (drop (length existing) (mergeNewImages existing picked))) = {}"
proof -
  have d: "distinct (map uri (mergeNewImages existing picked))"
    if "distinct (map uri existing)" "distinct (map asset_uri picked)"
    unfolding mergeNewImages_uris using that by (auto simp: distinct_map_filter)
  have k: "take (length existing) (mergeNewImages existing picked) = existing"
    by (simp add: mergeNewImages_eq)
  have a: "drop (length existing) (mergeNewImages existing picked)
       = map toSelectedImage (filter (\<lambda>a. asset_uri a \<notin> set (map uri existing)) picked)"
    by (simp add: mergeNewImages_eq)
  have t: "map uri (drop (length existing) (mergeNewImages existing picked))
             = filter (\<lambda>u. u \<notin> set (map uri existing)) (map asset_uri picked)"
    by (simp add: mergeNewImages_eq uri_toSelectedImage filter_map o_def)
  have s: "subseq (map uri (drop (length existing) (mergeNewImages existing picked)))
                   (map asset_uri picked)"
    unfolding t by (rule subseq_filter_left)
  have i: "set (map uri existing)
         \<inter> set (map uri (drop (length existing) (mergeNewImages existing picked))) = {}"
    unfolding t by auto
  from d k a t s i show ?thesis by blast
qed

text \<open>
  The existing sequence holds \<open>a.jpg\<close>; the picked assets are \<open>a.jpg\<close>, \<open>b.png\<close> and
  \<open>c.gif\<close>.
\<close>

theorem mergeNewImages_appends_distinct_witness:
  "distinct (map uri (mergeNewImages
       [\<lparr>uri = ''a.jpg'', width = 800, height = 600, mimeType = None\<rparr>]
       [\<lparr>asset_uri = ''a.jpg'', asset_width = Some 800, asset_height = Some 600,
           asset_mimeType = None\<rparr>,
        \<lparr>asset_uri = ''b.png'', asset_width = None, asset_height = None,
           asset_mimeType = Some ''image/png''\<rparr>,
        \<lparr>asset_uri = ''c.gif'', asset_width = Some 32, asset_height = Some 32,
           asset_mimeType = None\<rparr>]))
   \<and> take (length [\<lparr>uri = ''a.jpg'', width = 800, height = 600, mimeType = None\<rparr>]) (mergeNewImages
       [\<lparr>uri = ''a.jpg'', width = 800, height = 600, mimeType = None\<rparr>]
       [\<lparr>asset_uri = ''a.jpg'', asset_width = Some 800, asset_height = Some 600,
           asset_mimeType = None\<rparr>,
        \<lparr>asset_uri = ''b.png'', asset_width = None, asset_height = None,
           asset_mimeType = Some ''image/png''\<rparr>,
        \<lparr>asset_uri = ''c.gif'', asset_width = Some 32, asset_height = Some 32,
           asset_mimeType = None\<rparr>]) = [\<lparr>uri = ''a.jpg'', width = 800, height = 600, mimeType = None\<rparr>]
   \<and> drop (length [\<lparr>uri = ''a.jpg'', width = 800, height = 600, mimeType = None\<rparr>]) (mergeNewImages
       [\<lparr>uri = ''a.jpg'', width = 800, height = 600, mimeType = None\<rparr>]
       [\<lparr>asset_uri = ''a.jpg'', asset_width = Some 800, asset_height = Some 600,
           asset_mimeType = None\<rparr>,
        \<lparr>asset_uri = ''b.png'', asset_width = None, asset_height = None,
           asset_mimeType = Some ''image/png''\<rparr>,
        \<lparr>asset_uri = ''c.gif'', asset_width = Some 32, asset_height = Some 32,
           asset_mimeType = None\<rparr>])
       = map toSelectedImage (filter (\<lambda>a. asset_uri a \<notin> set (map uri [\<lparr>uri = ''a.jpg'', width = 800, height = 600, mimeType = None\<rparr>]))
       [\<lparr>asset_uri = ''a.jpg'', asset_width = Some 800, asset_height = Some 600,
           asset_mimeType = None\<rparr>,
        \<lparr>asset_uri = ''b.png'', asset_width = None, asset_height = None,
           asset_mimeType = Some ''image/png''\<rparr>,
        \<lparr>asset_uri = ''c.gif'', asset_width = Some 32, asset_height = Some 32,
           asset_mimeType = None\<rparr>])
   \<and> map uri (drop (length [\<lparr>uri = ''a.jpg'', width = 800, height = 600, mimeType = None\<rparr>]) (mergeNewImages
       [\<lparr>uri = ''a.jpg'', width = 800, height = 600, mimeType = None\<rparr>]
       [\<lparr>asset_uri = ''a.jpg'', asset_width = Some 800, asset_height = Some 600,
           asset_mimeType = None\<rparr>,
        \<lparr>asset_uri = ''b.png'', asset_width = None, asset_height = None,
           asset_mimeType = Some ''image/png''\<rparr>,
        \<lparr>asset_uri = ''c.gif'', asset_width = Some 32, asset_height = Some 32,
           asset_mimeType = None\<rparr>]))
       = filter (\<lambda>u. u \<notin> set (map uri [\<lparr>uri = ''a.jpg'', width = 800, height = 600, mimeType = None\<rparr>])) (map asset_uri
       [\<lparr>asset_uri = ''a.jpg'', asset_width = Some 800, asset_height = Some 600,
           asset_mimeType = None\<rparr>,
        \<lparr>asset_uri = ''b.png'', asset_width = None, asset_height = None,
           asset_mimeType = Some ''image/png''\<rparr>,
        \<lparr>asset_uri = ''c.gif'', asset_width = Some 32, asset_height = Some 32,
           asset_mimeType = None\<rparr>])
   \<and> subseq (map uri (drop (length [\<lparr>uri = ''a.jpg'', width = 800, height = 600, mimeType = None\<rparr>]) (mergeNewImages
       [\<lparr>uri = ''a.jpg'', width = 800, height = 600, mimeType = None\<rparr>]
       [\<lparr>asset_uri = ''a.jpg'', asset_width = Some 800, asset_height = Some 600,
           asset_mimeType = None\<rparr>,
        \<lparr>asset_uri = ''b.png'', asset_width = None, asset_height = None,
           asset_mimeType = Some ''image/png''\<rparr>,
        \<lparr>asset_uri = ''c.gif'', asset_width = Some 32, asset_height = Some 32,
           asset_mimeType = None\<rparr>])))
             (map asset_uri
       [\<lparr>asset_uri = ''a.jpg'', asset_width = Some 800, asset_height = Some 600,
           asset_mimeType = None\<rparr>,
        \<lparr>asset_uri = ''b.png'', asset_width = None, asset_height = None,
           asset_mimeType = Some ''image/png''\<rparr>,
        \<lparr>asset_uri = ''c.gif'', asset_width = Some 32, asset_height = Some 32,
           asset_mimeType = None\<rparr>])
   \<and> set (map uri [\<lparr>uri = ''a.jpg'', width = 800, height = 600, mimeType = None\<rparr>])
         \<inter> set (map uri (drop (length [\<lparr>uri = ''a.jpg'', width = 800, height = 600, mimeType = None\<rparr>]) (mergeNewImages
       [\<lparr>uri = ''a.jpg'', width = 800, height = 600, mimeType = None\<rparr>]
       [\<lparr>asset_uri = ''a.jpg'', asset_width = Some 800, asset_height = Some 600,
           asset_mimeType = None\<rparr>,
        \<lparr>asset_uri = ''b.png'', asset_width = None, asset_height = None,
           asset_mimeType = Some ''image/png''\<rparr>,
        \<lparr>asset_uri = ''c.gif'', asset_width = Some 32, asset_height = Some 32,
           asset_mimeType = None\<rparr>]))) = {}"
proof -
  have "distinct (map uri [\<lparr>uri = ''a.jpg'', width = 800, height = 600, mimeType = None\<rparr>]) \<and> distinct (map asset_uri
       [\<lparr>asset_uri = ''a.jpg'', asset_width = Some 800, asset_height = Some 600,
           asset_mimeType = None\<rparr>,
        \<lparr>asset_uri = ''b.png'', asset_width = None, asset_height = None,
           asset_mimeType = Some ''image/png''\<rparr>,
        \<lparr>asset_uri = ''c.gif'', asset_width = Some 32, asset_height = Some 32,
           asset_mimeType = None\<rparr>])"
    by simp
  with mergeNewImages_appends_distinct
         [of "[\<lparr>uri = ''a.jpg'', width = 800, height = 600, mimeType = None\<rparr>]"
             "[\<lparr>asset_uri = ''a.jpg'', asset_width = Some 800, asset_height = Some 600,
           asset_mimeType = None\<rparr>,
        \<lparr>asset_uri = ''b.png'', asset_width = None, asset_height = None,
           asset_mimeType = Some ''image/png''\<rparr>,
        \<lparr>asset_uri = ''c.gif'', asset_width = Some 32, asset_height = Some 32,
           asset_mimeType = None\<rparr>]"]
  show ?thesis by blast
qed

text \<open>
  A picked list that names one handle twice, merged into the empty sequence, gives a
  sequence with that handle twice.
\<close>

theorem mergeNewImages_duplicate_counterexample:
  "\<not> distinct (map uri (mergeNewImages []
      [\<lparr>asset_uri = ''a.jpg'', asset_width = Some 800, asset_height = Some 600,
          asset_mimeType = None\<rparr>,
       \<lparr>asset_uri = ''a.jpg'', asset_width = Some 800, asset_height = Some 600,
          asset_mimeType = None\<rparr>]))"
  by (simp add: mergeNewImages_def toSelectedImage_def)

lemma picked_all_present:
  "filter (\<lambda>a. asset_uri a \<notin> uri ` set (mergeNewImages s p)) p = []"
proof -
  have "asset_uri a \<in> uri ` set (mergeNewImages s p)" if "a \<in> set p" for a
  proof (cases "asset_uri a \<in> uri ` set s")
    case True
    then show ?thesis by (auto simp: mergeNewImages_eq)
  next
    case False
    with that have "toSelectedImage a \<in> set (mergeNewImages s p)"
      by (simp add: mergeNewImages_eq)
    then have "uri (toSelectedImage a) \<in> uri ` set (mergeNewImages s p)" by (rule imageI)
    then show ?thesis by (simp add: uri_toSelectedImage)
  qed
  then show ?thesis by (simp add: filter_empty_conv)
qed

lemma mergeNewImages_twice: "mergeNewImages (mergeNewImages s p) p = mergeNewImages s p"
  by (subst mergeNewImages_eq [of "mergeNewImages s p"]) (simp add: picked_all_present)

text \<open>
  C9: merging a picked list into the result of merging the same list gives that result
  again, for every sequence and every picked list; so picking the same result twice
  leaves the state that picking it once leaves.
\<close>

theorem mergeNewImages_idempotent:
  "mergeNewImages (mergeNewImages s p) p = mergeNewImages s p
   \<and> fst (pickImages granted result (fst (pickImages granted result st)))
       = fst (pickImages granted result st)"
  by (simp add: mergeNewImages_twice pickImages_def)

section \<open>Exporting an empty sequence\<close>

lemma convertToPdf_empty:
  "images st = [] \<Longrightarrow> convertToPdf sv st = (st, [Alert NoticeNoImages])"
  by (simp add: convertToPdf_def)

lemma generatePdf_empty:
  "images st = [] \<Longrightarrow> generatePdf sv st = (st, [Alert NoticeNoImages])"
  by (simp add: generatePdf_def)

text \<open>With an image, the first thing the export does is to set the in-progress flag.\<close>

lemma convertToPdf_nonempty:
  "images st \<noteq> [] \<Longrightarrow> hd (snd (convertToPdf sv st)) = SetInProgress True"
  by (cases "images st") (auto simp add: convertToPdf_def Let_def split: option.splits)

lemma generatePdf_nonempty:
  "images st \<noteq> [] \<Longrightarrow> hd (snd (generatePdf sv st)) = SetInProgress True"
  by (cases "images st") (auto simp add: generatePdf_def Let_def split: option.splits)

text \<open>
  C7: with no image, the export of either file returns the state as it was (the
  in-progress flag and, in index.tsx, the URI of an earlier PDF included) and does one
  thing only, the alert that no image is selected: the in-progress flag is not set, no
  file is read and the print service is not called.
\<close>

theorem export_empty_sequence:
  assumes "images st = []" "images st' = []"
  shows "convertToPdf sv st = (st, [Alert NoticeNoImages])
         \<and> generatePdf sv st' = (st', [Alert NoticeNoImages])
         \<and> SetInProgress True \<notin> set (snd (convertToPdf sv st))
         \<and> SetInProgress True \<notin> set (snd (generatePdf sv st'))
         \<and> pdfUri (fst (convertToPdf sv st)) = pdfUri st"
  using assms by (simp add: convertToPdf_empty generatePdf_empty)

theorem export_empty_sequence_witness:
  "convertToPdf
     \<lparr>readBase64 = (\<lambda>handle. None), printToFileAsync = (\<lambda>html. None),
      printAsync = (\<lambda>html orient. None)\<rparr>
     \<lparr>images = [], paperSize = A4, orientation = portrait, marginMm = 10,
      isConverting = False, pdfUri = Some ''file:///print/earlier.pdf'', isSharing = False\<rparr>
   = (\<lparr>images = [], paperSize = A4, orientation = portrait, marginMm = 10,
       isConverting = False, pdfUri = Some ''file:///print/earlier.pdf'', isSharing = False\<rparr>,
      [Alert NoticeNoImages])"
  by (rule export_empty_sequence
        [where st' = "\<lparr>images = [], paperSize = Letter, orientation = landscape,
                        paddingMm = 10, isGenerating = False, previewCanvasSize = (0, 0)\<rparr>",
         THEN conjunct1])
     simp_all

section \<open>The markup of an A4 portrait page with a 10 mm margin\<close>

lemma floor_numeral_div:
  "\<lfloor>numeral a / numeral b :: rat\<rfloor> = numeral a div numeral b"
  "\<lfloor>- (numeral a / numeral b) :: rat\<rfloor> = - numeral a div numeral b"
  "\<lfloor>1 / numeral b :: rat\<rfloor> = 1 div numeral b"
  "\<lfloor>- (1 / numeral b) :: rat\<rfloor> = - 1 div numeral b"
  using floor_divide_of_int_eq [of "numeral a" "numeral b", where ?'a = rat]
    floor_divide_of_int_eq [of "- numeral a" "numeral b", where ?'a = rat]
    floor_divide_of_int_eq [of 1 "numeral b", where ?'a = rat]
    floor_divide_of_int_eq [of "- 1" "numeral b", where ?'a = rat]
  by simp_all

lemmas js_eval = toDouble_def binade_def pow2_def pow10_def roundHalfEven_def Let_def
  ceiling_def jsSub_def jsMul_def jsDiv_def shortestDecimal_def decade_def showDecimal_def
  numberToString_def floor_numeral_div

lemma numberToString_values:
  "numberToString 210 = ''210''" "numberToString 297 = ''297''"
  "numberToString 190 = ''190''" "numberToString 277 = ''277''"
  "numberToString 10 = ''10''"
  by (simp_all add: js_eval)

lemma contentBox_A4:
  "max (jsSub 210 (jsMul 10 2)) 1 = 190" "max (jsSub 297 (jsMul 10 2)) 1 = 277"
  by (simp_all add: js_eval)

lemma buildPdfHtml_part0_A4:
  assumes "paperSize st = A4" "orientation st = portrait" "paddingMm st = 10"
  shows "buildPdfHtml_part0 st [source] = documentA4_part0 source"
  using assms
  by (simp add: buildPdfHtml_part0_def getPageDimensionsMm_def map_indexed_def Let_def
        contentBox_A4 documentA4_part0_def documentHead_def documentBody_def
        styleSheet_part0_def pageRule_def htmlBodyRule_def sheetRule_part0_def
        lastChildRule_def contentRule_def contentImgRule_def landscapeImgRule_def
        sheet_part0_def numberToString_values)

lemma buildPdfHtml_tabs_A4:
  assumes "paperSize st = A4" "orientation st = portrait" "marginMm st = 10"
  shows "buildPdfHtml_tabs st [source] = documentA4_tabs source"
  using assms
  by (simp add: buildPdfHtml_tabs_def getPageDimensionsMm_def map_indexed_def Let_def
        documentA4_tabs_def documentHead_def documentBody_def
        styleSheet_tabs_def pageRule_def htmlBodyRule_def sheetRule_tabs_def
        lastChildRule_def imgRule_tabs_def sheet_tabs_def numberToString_values)


lemma textAfter_no_start: "c \<notin> set a \<Longrightarrow> textAfter (c # t) (a @ r) = textAfter (c # t) r"
  by (induction a) auto

lemma prefix_upto: "c \<notin> set t \<Longrightarrow> prefix t (a @ c # r) = prefix t a"
proof
  assume c: "c \<notin> set t" and p: "prefix t (a @ c # r)"
  show "prefix t a"
  proof (rule ccontr)
    assume "\<not> prefix t a"
    with p obtain us where "t = a @ us" "prefix us (c # r)" "us \<noteq> []"
      by (auto simp: prefix_append)
    then have "c \<in> set t" by (cases us) auto
    with c show False by simp
  qed
next
  assume "prefix t a"
  then show "prefix t (a @ c # r)" by (simp add: prefix_prefix)
qed

lemma textAfter_line:
  assumes "c \<notin> set a" "c \<notin> set t"
  shows "textAfter (c # t) (c # a @ c # r) =
           (if prefix t a then Some (drop (length t) a @ c # r)
            else textAfter (c # t) (c # r))"
proof (cases "prefix t a")
  case True
  then have "length t \<le> length a" by (rule prefix_length_le)
  with True show ?thesis by (simp add: prefix_upto [OF assms(2)])
next
  case False
  then show ?thesis
    using textAfter_no_start [OF assms(1), of t "c # r"]
    by (simp add: prefix_upto [OF assms(2)])
qed

lemma textAfter_ln:
  assumes "CHR 0x0A \<notin> set s" "CHR 0x0A \<notin> set t"
  shows "textAfter (ln j t) (ln k s @ ln k' s' @ r) =
           (if prefix (replicate j CHR '' '' @ t) (replicate k CHR '' '' @ s)
            then Some (drop (j + length t) (replicate k CHR '' '' @ s) @ ln k' s' @ r)
            else textAfter (ln j t) (ln k' s' @ r))"
proof -
  have a: "CHR 0x0A \<notin> set (replicate k CHR '' '' @ s)" using assms(1) by auto
  have t: "CHR 0x0A \<notin> set (replicate j CHR '' '' @ t)" using assms(2) by auto
  show ?thesis
    using textAfter_line [OF a t, of "replicate k' CHR '' '' @ s' @ r"]
    by (simp add: ln_def)
qed

lemma textAfter_ln_last:
  assumes "CHR 0x0A \<notin> set s" "CHR 0x0A \<notin> set t"
  shows "textAfter (ln j t) (ln k s @ ln k' s') =
           (if prefix (replicate j CHR '' '' @ t) (replicate k CHR '' '' @ s)
            then Some (drop (j + length t) (replicate k CHR '' '' @ s) @ ln k' s')
            else textAfter (ln j t) (ln k' s'))"
  using textAfter_ln [OF assms, of j k k' s' "[]"] by simp

lemma takeWhile_ln_skip:
  assumes "c \<notin> set s" "c \<noteq> CHR 0x0A" "c \<noteq> CHR '' ''"
  shows "takeWhile (\<lambda>x. x \<noteq> c) (ln k s @ r) = ln k s @ takeWhile (\<lambda>x. x \<noteq> c) r"
proof -
  have "\<forall>x \<in> set (ln k s). x \<noteq> c" using assms by (auto simp: ln_def)
  then show ?thesis by simp
qed

lemma takeWhile_ln_stop:
  assumes "c \<noteq> CHR 0x0A" "c \<noteq> CHR '' ''"
  shows "takeWhile (\<lambda>x. x \<noteq> c) (ln k (c # s) @ r) = ln k []"
proof -
  have "ln k (c # s) @ r = ln k [] @ c # s @ r" by (simp add: ln_def)
  moreover have "\<forall>x \<in> set (ln k []). x \<noteq> c" using assms by (auto simp: ln_def)
  ultimately show ?thesis by simp
qed

lemma indents:
  "replicate 0 c = []"
  "replicate 4 c = [c, c, c, c]"
  "replicate 6 c = [c, c, c, c, c, c]"
  "replicate 8 c = [c, c, c, c, c, c, c, c]"
  "replicate 10 c = [c, c, c, c, c, c, c, c, c, c]"
  "replicate 12 c = [c, c, c, c, c, c, c, c, c, c, c, c]"
  "replicate 14 c = [c, c, c, c, c, c, c, c, c, c, c, c, c, c]"
  by (simp_all add: eval_nat_numeral)

lemmas css_eval = cssValue_def cssRule_def textAfter_ln textAfter_ln_last takeWhile_ln_skip takeWhile_ln_stop
  indents

lemma read_tabs:
  "cssValue ''@page'' ''size'' (documentA4_tabs source) = Some ''210mm 297mm''"
  "cssValue ''@page'' ''margin'' (documentA4_tabs source) = Some ''0''"
  "cssValue ''.sheet'' ''box-sizing'' (documentA4_tabs source) = Some ''border-box''"
  "cssValue ''.sheet'' ''width'' (documentA4_tabs source) = Some ''210mm''"
  "cssValue ''.sheet'' ''height'' (documentA4_tabs source) = Some ''297mm''"
  "cssValue ''.sheet'' ''padding'' (documentA4_tabs source) = Some ''10mm''"
  "cssValue ''.sheet'' ''align-items'' (documentA4_tabs source) = Some ''center''"
  "cssValue ''.sheet'' ''justify-content'' (documentA4_tabs source) = Some ''center''"
  "cssValue ''.sheet img'' ''width'' (documentA4_tabs source) = Some ''100%''"
  "cssValue ''.sheet img'' ''height'' (documentA4_tabs source) = Some ''100%''"
  "cssValue ''.sheet img'' ''object-fit'' (documentA4_tabs source) = Some ''contain''"
  by (simp_all add: documentA4_tabs_def css_eval)

lemma millimetres_values:
  "millimetres ''210mm'' = Some 210" "millimetres ''297mm'' = Some 297"
  "millimetres ''190mm'' = Some 190" "millimetres ''277mm'' = Some 277"
  "millimetres ''10mm'' = Some 10" "millimetres ''215.9mm'' = Some 215.9"
  "millimetres ''100%'' = None"
  by (simp_all add: millimetres_def digitValue_def natOfDigits_def)

lemma box_tabs:
  "declaredSizeMm ''.sheet'' (documentA4_tabs source) = Some (210, 297)"
  "borderBoxContentMm ''.sheet'' (documentA4_tabs source) = Some (190, 277)"
  by (simp_all add: borderBoxContentMm_def declaredSizeMm_def read_tabs millimetres_values)


lemma read_part0:
  "cssValue ''@page'' ''size'' (documentA4_part0 source) = Some ''210mm 297mm''"
  "cssValue ''@page'' ''margin'' (documentA4_part0 source) = Some ''0''"
  "cssValue ''.sheet'' ''width'' (documentA4_part0 source) = Some ''210mm''"
  "cssValue ''.sheet'' ''height'' (documentA4_part0 source) = Some ''297mm''"
  "cssValue ''.content'' ''width'' (documentA4_part0 source) = Some ''190mm''"
  "cssValue ''.content'' ''height'' (documentA4_part0 source) = Some ''277mm''"
  "cssValue ''.content'' ''align-items'' (documentA4_part0 source) = Some ''center''"
  "cssValue ''.content'' ''justify-content'' (documentA4_part0 source) = Some ''center''"
  "cssValue ''.content img'' ''max-width'' (documentA4_part0 source) = Some ''100%''"
  "cssValue ''.content img'' ''max-height'' (documentA4_part0 source) = Some ''100%''"
  "cssValue ''.content img'' ''width'' (documentA4_part0 source) = Some ''auto''"
  "cssValue ''.content img'' ''height'' (documentA4_part0 source) = Some ''auto''"
  by (simp_all add: documentA4_part0_def css_eval)

lemma box_part0:
  "declaredSizeMm ''.sheet'' (documentA4_part0 source) = Some (210, 297)"
  "declaredSizeMm ''.content'' (documentA4_part0 source) = Some (190, 277)"
  by (simp_all add: declaredSizeMm_def read_part0 millimetres_values)

text \<open>
  C1: for paper A4, orientation portrait, a margin of 10 mm and one image source,
  whatever the source, the markup of each file is exactly the expected document. In
  both, the page rule declares the size 210mm 297mm and the margin 0, and the sheet is
  210 mm by 297 mm. In part_000 the content element is declared 190 mm by 277 mm, it
  centres its content on both axes, and the image is bounded by the content element
  with automatic width and height, which keeps its proportions. In index.tsx the sheet
  is a border box with a padding of 10 mm, so that its content box is 190 mm by 277 mm;
  it centres its content on both axes, and the image fills that box with
  \<open>object-fit: contain\<close>.
\<close>

theorem buildPdfHtml_A4_portrait_10mm:
  assumes "paperSize st = A4" "orientation st = portrait" "paddingMm st = 10"
    and "paperSize st' = A4" "orientation st' = portrait" "marginMm st' = 10"
  shows
  \<open>buildPdfHtml_part0 st [source] = documentA4_part0 source
   \<and> cssValue ''@page'' ''size'' (buildPdfHtml_part0 st [source]) = Some ''210mm 297mm''
   \<and> cssValue ''@page'' ''margin'' (buildPdfHtml_part0 st [source]) = Some ''0''
   \<and> declaredSizeMm ''.sheet'' (buildPdfHtml_part0 st [source]) = Some (210, 297)
   \<and> declaredSizeMm ''.content'' (buildPdfHtml_part0 st [source]) = Some (190, 277)
   \<and> cssValue ''.content'' ''align-items'' (buildPdfHtml_part0 st [source]) = Some ''center''
   \<and> cssValue ''.content'' ''justify-content'' (buildPdfHtml_part0 st [source])
       = Some ''center''
   \<and> cssValue ''.content img'' ''max-width'' (buildPdfHtml_part0 st [source]) = Some ''100%''
   \<and> cssValue ''.content img'' ''max-height'' (buildPdfHtml_part0 st [source]) = Some ''100%''
   \<and> cssValue ''.content img'' ''width'' (buildPdfHtml_part0 st [source]) = Some ''auto''
   \<and> cssValue ''.content img'' ''height'' (buildPdfHtml_part0 st [source]) = Some ''auto''
   \<and> buildPdfHtml_tabs st' [source] = documentA4_tabs source
   \<and> cssValue ''@page'' ''size'' (buildPdfHtml_tabs st' [source]) = Some ''210mm 297mm''
   \<and> cssValue ''@page'' ''margin'' (buildPdfHtml_tabs st' [source]) = Some ''0''
   \<and> declaredSizeMm ''.sheet'' (buildPdfHtml_tabs st' [source]) = Some (210, 297)
   \<and> borderBoxContentMm ''.sheet'' (buildPdfHtml_tabs st' [source]) = Some (190, 277)
   \<and> cssValue ''.sheet'' ''align-items'' (buildPdfHtml_tabs st' [source]) = Some ''center''
   \<and> cssValue ''.sheet'' ''justify-content'' (buildPdfHtml_tabs st' [source]) = Some ''center''
   \<and> cssValue ''.sheet img'' ''width'' (buildPdfHtml_tabs st' [source]) = Some ''100%''
   \<and> cssValue ''.sheet img'' ''height'' (buildPdfHtml_tabs st' [source]) = Some ''100%''
   \<and> cssValue ''.sheet img'' ''object-fit'' (buildPdfHtml_tabs st' [source]) = Some ''contain''\<close>
  unfolding buildPdfHtml_part0_A4 [OF assms(1-3)] buildPdfHtml_tabs_A4 [OF assms(4-6)]
  using read_part0 [of source] box_part0 [of source] read_tabs [of source]
    box_tabs [of source]
  by (intro conjI) simp_all

theorem buildPdfHtml_A4_portrait_10mm_witness:
  \<open>buildPdfHtml_part0 
        \<lparr>images = [], paperSize = A4, orientation = portrait, paddingMm = 10,
          isGenerating = False, previewCanvasSize = (0, 0)\<rparr>
        [''data:image/png;base64,iVBORw0KGgo=''] = documentA4_part0 (''data:image/png;base64,iVBORw0KGgo='')
   \<and> cssValue ''@page'' ''size'' (buildPdfHtml_part0 
        \<lparr>images = [], paperSize = A4, orientation = portrait, paddingMm = 10,
          isGenerating = False, previewCanvasSize = (0, 0)\<rparr>
        [''data:image/png;base64,iVBORw0KGgo='']) = Some ''210mm 297mm''
   \<and> cssValue ''@page'' ''margin'' (buildPdfHtml_part0 
        \<lparr>images = [], paperSize = A4, orientation = portrait, paddingMm = 10,
          isGenerating = False, previewCanvasSize = (0, 0)\<rparr>
        [''data:image/png;base64,iVBORw0KGgo='']) = Some ''0''
   \<and> declaredSizeMm ''.sheet'' (buildPdfHtml_part0 
        \<lparr>images = [], paperSize = A4, orientation = portrait, paddingMm = 10,
          isGenerating = False, previewCanvasSize = (0, 0)\<rparr>
        [''data:image/png;base64,iVBORw0KGgo='']) = Some (210, 297)
   \<and> declaredSizeMm ''.content'' (buildPdfHtml_part0 
        \<lparr>images = [], paperSize = A4, orientation = portrait, paddingMm = 10,
          isGenerating = False, previewCanvasSize = (0, 0)\<rparr>
        [''data:image/png;base64,iVBORw0KGgo='']) = Some (190, 277)
   \<and> cssValue ''.content'' ''align-items'' (buildPdfHtml_part0 
        \<lparr>images = [], paperSize = A4, orientation = portrait, paddingMm = 10,
          isGenerating = False, previewCanvasSize = (0, 0)\<rparr>
        [''data:image/png;base64,iVBORw0KGgo='']) = Some ''center''
   \<and> cssValue ''.content'' ''justify-content'' (buildPdfHtml_part0 
        \<lparr>images = [], paperSize = A4, orientation = portrait, paddingMm = 10,
          isGenerating = False, previewCanvasSize = (0, 0)\<rparr>
        [''data:image/png;base64,iVBORw0KGgo=''])
       = Some ''center''
   \<and> cssValue ''.content img'' ''max-width'' (buildPdfHtml_part0 
        \<lparr>images = [], paperSize = A4, orientation = portrait, paddingMm = 10,
          isGenerating = False, previewCanvasSize = (0, 0)\<rparr>
        [''data:image/png;base64,iVBORw0KGgo='']) = Some ''100%''
   \<and> cssValue ''.content img'' ''max-height'' (buildPdfHtml_part0 
        \<lparr>images = [], paperSize = A4, orientation = portrait, paddingMm = 10,
          isGenerating = False, previewCanvasSize = (0, 0)\<rparr>
        [''data:image/png;base64,iVBORw0KGgo='']) = Some ''100%''
   \<and> cssValue ''.content img'' ''width'' (buildPdfHtml_part0 
        \<lparr>images = [], paperSize = A4, orientation = portrait, paddingMm = 10,
          isGenerating = False, previewCanvasSize = (0, 0)\<rparr>
        [''data:image/png;base64,iVBORw0KGgo='']) = Some ''auto''
   \<and> cssValue ''.content img'' ''height'' (buildPdfHtml_part0 
        \<lparr>images = [], paperSize = A4, orientation = portrait, paddingMm = 10,
          isGenerating = False, previewCanvasSize = (0, 0)\<rparr>
        [''data:image/png;base64,iVBORw0KGgo='']) = Some ''auto''
   \<and> buildPdfHtml_tabs 
        \<lparr>images = [], paperSize = A4, orientation = portrait, marginMm = 10,
          isConverting = False, pdfUri = None, isSharing = False\<rparr>
        [''data:image/png;base64,iVBORw0KGgo=''] = documentA4_tabs (''data:image/png;base64,iVBORw0KGgo='')
   \<and> cssValue ''@page'' ''size'' (buildPdfHtml_tabs 
        \<lparr>images = [], paperSize = A4, orientation = portrait, marginMm = 10,
          isConverting = False, pdfUri = None, isSharing = False\<rparr>
        [''data:image/png;base64,iVBORw0KGgo='']) = Some ''210mm 297mm''
   \<and> cssValue ''@page'' ''margin'' (buildPdfHtml_tabs 
        \<lparr>images = [], paperSize = A4, orientation = portrait, marginMm = 10,
          isConverting = False, pdfUri = None, isSharing = False\<rparr>
        [''data:image/png;base64,iVBORw0KGgo='']) = Some ''0''
   \<and> declaredSizeMm ''.sheet'' (buildPdfHtml_tabs 
        \<lparr>images = [], paperSize = A4, orientation = portrait, marginMm = 10,
          isConverting = False, pdfUri = None, isSharing = False\<rparr>
        [''data:image/png;base64,iVBORw0KGgo='']) = Some (210, 297)
   \<and> borderBoxContentMm ''.sheet'' (buildPdfHtml_tabs 
        \<lparr>images = [], paperSize = A4, orientation = portrait, marginMm = 10,
          isConverting = False, pdfUri = None, isSharing = False\<rparr>
        [''data:image/png;base64,iVBORw0KGgo='']) = Some (190, 277)
   \<and> cssValue ''.sheet'' ''align-items'' (buildPdfHtml_tabs 
        \<lparr>images = [], paperSize = A4, orientation = portrait, marginMm = 10,
          isConverting = False, pdfUri = None, isSharing = False\<rparr>
        [''data:image/png;base64,iVBORw0KGgo='']) = Some ''center''
   \<and> cssValue ''.sheet'' ''justify-content'' (buildPdfHtml_tabs 
        \<lparr>images = [], paperSize = A4, orientation = portrait, marginMm = 10,
          isConverting = False, pdfUri = None, isSharing = False\<rparr>
        [''data:image/png;base64,iVBORw0KGgo='']) = Some ''center''
   \<and> cssValue ''.sheet img'' ''width'' (buildPdfHtml_tabs 
        \<lparr>images = [], paperSize = A4, orientation = portrait, marginMm = 10,
          isConverting = False, pdfUri = None, isSharing = False\<rparr>
        [''data:image/png;base64,iVBORw0KGgo='']) = Some ''100%''
   \<and> cssValue ''.sheet img'' ''height'' (buildPdfHtml_tabs 
        \<lparr>images = [], paperSize = A4, orientation = portrait, marginMm = 10,
          isConverting = False, pdfUri = None, isSharing = False\<rparr>
        [''data:image/png;base64,iVBORw0KGgo='']) = Some ''100%''
   \<and> cssValue ''.sheet img'' ''object-fit'' (buildPdfHtml_tabs 
        \<lparr>images = [], paperSize = A4, orientation = portrait, marginMm = 10,
          isConverting = False, pdfUri = None, isSharing = False\<rparr>
        [''data:image/png;base64,iVBORw0KGgo='']) = Some ''contain''\<close>
  by (rule buildPdfHtml_A4_portrait_10mm) simp_all

end
